theory Spec2Isabelle
  imports Complex_Main "HOL-Library.AList"
begin

section \<open>The parallel task scheduler of \<^verbatim>\<open>src/agents/parallel_task_scheduler.py\<close>\<close>

text \<open>
  The development embeds the scheduler's data classes and methods as HOL functions.
  Conventions:
  \<^item> a Python \<^verbatim>\<open>float\<close> is a \<^typ>\<open>real\<close> (exact arithmetic; rounding is not modelled),
    a Python \<^verbatim>\<open>int\<close> is an \<^typ>\<open>int\<close> or a \<^typ>\<open>nat\<close>;
  \<^item> a \<^verbatim>\<open>dict\<close> is an association list in insertion order with distinct keys
    (\<^const>\<open>AList.update\<close> overwrites in place or appends, as a Python dict does);
  \<^item> an exception is a value of \<open>py_error\<close>; a function that can raise returns
    \<open>py_error + 'a\<close>, and one that mutates its arguments before raising returns the
    mutated state together with \<open>py_error option\<close>;
  \<^item> every call of \<^verbatim>\<open>datetime.now()\<close> is a parameter of the function that makes it.
\<close>

subsection \<open>Exceptions and enumerations\<close>

datatype py_error =
  TypeError | KeyError | NameError | AttributeError | ZeroDivisionError | IndexError

datatype TaskStatus = PENDING | RUNNING | COMPLETED | FAILED | CANCELLED

datatype AgentStatus = IDLE | BUSY | ERROR | OFFLINE

subsection \<open>Naive \<^verbatim>\<open>datetime\<close> values\<close>

record datetime =
  year :: nat
  month :: nat
  day :: nat
  hour :: nat
  minute :: nat
  second :: nat
  microsecond :: nat

definition is_leap :: "nat \<Rightarrow> bool" where
  "is_leap y = (y mod 4 = 0 \<and> (y mod 100 \<noteq> 0 \<or> y mod 400 = 0))"

definition days_before_year :: "nat \<Rightarrow> int" where
  "days_before_year y =
     (let z = int y - 1 in z * 365 + z div 4 - z div 100 + z div 400)"

definition DAYS_BEFORE_MONTH :: "int list" where
  "DAYS_BEFORE_MONTH = [- 1, 0, 31, 59, 90, 120, 151, 181, 212, 243, 273, 304, 334]"

definition days_before_month :: "nat \<Rightarrow> nat \<Rightarrow> int" where
  "days_before_month y m =
     DAYS_BEFORE_MONTH ! m + (if m > 2 \<and> is_leap y then 1 else 0)"

definition toordinal :: "datetime \<Rightarrow> int" where
  "toordinal d = days_before_year (year d) + days_before_month (year d) (month d) + int (day d)"

text \<open>
  \<^verbatim>\<open>(a - b).total_seconds()\<close> for two naive datetimes: the difference in microseconds,
  divided by \<open>10\<^sup>6\<close>. Months are read in the range 1 to 12, as every datetime has them.
\<close>

definition delta_microseconds :: "datetime \<Rightarrow> datetime \<Rightarrow> int" where
  "delta_microseconds a b =
     ((toordinal a - toordinal b) * 86400
        + ((int (second a) + int (minute a) * 60 + int (hour a) * 3600)
           - (int (second b) + int (minute b) * 60 + int (hour b) * 3600))) * 1000000
      + (int (microsecond a) - int (microsecond b))"

definition total_seconds :: "datetime \<Rightarrow> datetime \<Rightarrow> real" where
  "total_seconds a b = real_of_int (delta_microseconds a b) / 1000000"

text \<open>Decimal formatting, as \<^verbatim>\<open>str(n)\<close> and the zero-padded fields of \<^verbatim>\<open>strftime\<close>.\<close>

definition digit_char :: "nat \<Rightarrow> char" where
  "digit_char n = ''0123456789'' ! (n mod 10)"

fun str_nat :: "nat \<Rightarrow> string" where
  "str_nat n = (if n < 10 then [digit_char n] else str_nat (n div 10) @ [digit_char (n mod 10)])"

declare str_nat.simps [simp del]

definition zero_pad :: "nat \<Rightarrow> nat \<Rightarrow> string" where
  "zero_pad w n = (let s = str_nat n in replicate (w - length s) CHR ''0'' @ s)"

text \<open>\<^verbatim>\<open>d.strftime('%Y%m%d_%H%M%S')\<close>, for years of four digits.\<close>

definition strftime_Ymd_HMS :: "datetime \<Rightarrow> string" where
  "strftime_Ymd_HMS d =
     zero_pad 4 (year d) @ zero_pad 2 (month d) @ zero_pad 2 (day d) @ ''_''
       @ zero_pad 2 (hour d) @ zero_pad 2 (minute d) @ zero_pad 2 (second d)"

subsection \<open>\<^verbatim>\<open>ParallelTask\<close>\<close>

text \<open>
  The fields of the data class, in the order of their declaration. \<^verbatim>\<open>args\<close>,
  \<^verbatim>\<open>kwargs\<close> and \<^verbatim>\<open>result\<close> are opaque payloads, kept as strings. \<^verbatim>\<open>dependencies\<close> and
  \<^verbatim>\<open>resource_requirements\<close> are never \<^verbatim>\<open>None\<close> after \<^verbatim>\<open>__post_init__\<close>.
\<close>

record ParallelTask =
  task_id :: string
  task_type :: string
  command :: string
  args :: "string list"
  kwargs :: "(string \<times> string) list"
  priority :: int
  status :: TaskStatus
  created_at :: datetime
  started_at :: "datetime option"
  completed_at :: "datetime option"
  result :: "string option"
  error :: "string option"
  dependencies :: "string list"
  max_wait_time :: int
  resource_requirements :: "(string \<times> real) list"

text \<open>The constructor with \<^verbatim>\<open>__post_init__\<close>, for the arguments that \<^verbatim>\<open>schedule_task\<close> passes.\<close>

definition ParallelTask_init ::
  "string \<Rightarrow> string \<Rightarrow> string \<Rightarrow> string list \<Rightarrow> (string \<times> string) list \<Rightarrow> int \<Rightarrow> TaskStatus
     \<Rightarrow> datetime \<Rightarrow> string list option \<Rightarrow> int \<Rightarrow> (string \<times> real) list option \<Rightarrow> ParallelTask" where
  "ParallelTask_init tid ttype cmd as kws prio st created deps mwt reqs =
     \<lparr>task_id = tid, task_type = ttype, command = cmd, args = as, kwargs = kws,
      priority = prio, status = st, created_at = created, started_at = None,
      completed_at = None, result = None, error = None,
      dependencies = (case deps of None \<Rightarrow> [] | Some d \<Rightarrow> d),
      max_wait_time = mwt,
      resource_requirements = (case reqs of None \<Rightarrow> [] | Some r \<Rightarrow> r)\<rparr>"

subsection \<open>\<^verbatim>\<open>ResourcePool\<close>\<close>

record memory_stats_t =
  total :: real
  available :: real
  used :: real
  percent :: real

record ResourcePool =
  max_workers :: int
  max_memory_percent :: real
  available_workers :: int
  allocated_memory :: real
  memory_stats :: memory_stats_t

text \<open>
  \<^verbatim>\<open>ResourcePool.__init__\<close>. \<^verbatim>\<open>os.cpu_count()\<close> and the \<^verbatim>\<open>psutil\<close> snapshot are
  parameters; no snapshot stands for the \<^verbatim>\<open>ImportError\<close> branch of \<^verbatim>\<open>get_memory_stats\<close>.
\<close>

definition get_memory_stats :: "memory_stats_t option \<Rightarrow> memory_stats_t" where
  "get_memory_stats psutil =
     (case psutil of
        Some memory \<Rightarrow> memory
      | None \<Rightarrow> \<lparr>total = 0, available = 0, used = 0, percent = 0\<rparr>)"

definition ResourcePool_init ::
  "int option \<Rightarrow> real \<Rightarrow> int option \<Rightarrow> memory_stats_t option \<Rightarrow> ResourcePool" where
  "ResourcePool_init max_workers_arg max_memory_percent_arg cpu_count psutil =
     (let fallback = min 32 ((case cpu_count of None \<Rightarrow> 1 | Some c \<Rightarrow> if c = 0 then 1 else c) * 2);
          workers = (case max_workers_arg of None \<Rightarrow> fallback
                     | Some n \<Rightarrow> if n = 0 then fallback else n)
      in \<lparr>max_workers = workers, max_memory_percent = max_memory_percent_arg,
          available_workers = workers, allocated_memory = 0.0,
          memory_stats = get_memory_stats psutil\<rparr>)"

text \<open>\<^verbatim>\<open>d.get(k, default)\<close> on a dict.\<close>

definition dict_get :: "('k \<times> 'v) list \<Rightarrow> 'k \<Rightarrow> 'v \<Rightarrow> 'v" where
  "dict_get d k dflt = (case map_of d k of None \<Rightarrow> dflt | Some v \<Rightarrow> v)"

text \<open>
  \<^verbatim>\<open>can_allocate_task\<close>: the worker test comes first; the two divisions by
  \<^verbatim>\<open>memory_stats['total']\<close> raise \<^verbatim>\<open>ZeroDivisionError\<close> when the total is zero (the
  snapshot \<^verbatim>\<open>get_memory_stats\<close> returns when \<^verbatim>\<open>psutil\<close> is missing).
\<close>

definition can_allocate_task :: "ResourcePool \<Rightarrow> (string \<times> real) list \<Rightarrow> py_error + bool" where
  "can_allocate_task rp reqs =
     (let memory_required = dict_get reqs ''memory_mb'' 10 in
      if available_workers rp \<le> 0 then Inr False
      else if total (memory_stats rp) = 0 then Inl ZeroDivisionError
      else
        let memory_usage = (used (memory_stats rp) / total (memory_stats rp)) * 100;
            projected_usage = memory_usage
              + (memory_required * 1024 * 1024 / total (memory_stats rp) * 100)
        in Inr (projected_usage \<le> max_memory_percent rp))"

text \<open>
  \<^verbatim>\<open>allocate_resources\<close> and \<^verbatim>\<open>release_resources\<close> mutate the pool and the task; the
  model returns both.
\<close>

definition allocate_resources :: "ResourcePool \<Rightarrow> ParallelTask \<Rightarrow> bool \<times> ResourcePool \<times> ParallelTask" where
  "allocate_resources rp task =
     (if available_workers rp > 0
      then (True, rp\<lparr>available_workers := available_workers rp - 1\<rparr>, task\<lparr>status := RUNNING\<rparr>)
      else (False, rp, task))"

definition release_resources :: "ResourcePool \<Rightarrow> ParallelTask \<Rightarrow> ResourcePool \<times> ParallelTask" where
  "release_resources rp task =
     (rp\<lparr>available_workers := available_workers rp + 1\<rparr>,
      if status task = RUNNING then task\<lparr>status := COMPLETED\<rparr> else task)"

subsection \<open>\<^verbatim>\<open>ParallelAgent\<close>\<close>

text \<open>
  An entry of \<^verbatim>\<open>task_history\<close>; the source stores the ISO text of the timestamp, the
  model the timestamp itself.
\<close>

record history_entry =
  h_timestamp :: datetime
  h_execution_time :: real
  h_success :: bool
  h_task_type :: "string option"

record ParallelAgent =
  agent_id :: string
  agent_type :: string
  agent_status :: AgentStatus
  current_task :: "string option"
  supported_task_types :: "string list"
  max_concurrent_tasks :: int
  performance_metrics :: "(string \<times> real) list"
  last_activity :: datetime
  task_history :: "history_entry list"
  resource_usage :: "(string \<times> real) list"

definition default_performance_metrics :: "(string \<times> real) list" where
  "default_performance_metrics =
     [(''response_time'', 1.0), (''success_rate'', 1.0), (''efficiency'', 1.0)]"

definition default_resource_usage :: "(string \<times> real) list" where
  "default_resource_usage =
     [(''cpu_percent'', 0.0), (''memory_percent'', 0.0), (''disk_io_percent'', 0.0)]"

text \<open>
  The class statement lists \<^verbatim>\<open>supported_task_types\<close>, \<^verbatim>\<open>last_activity\<close> and
  \<^verbatim>\<open>task_history\<close> without a default after fields that have one, which \<^verbatim>\<open>dataclass\<close>
  refuses; the model takes the fields and their defaults as they are declared.

  The constructor with \<^verbatim>\<open>__post_init__\<close>, for a call that gives every field without a
  default: an argument that is \<^verbatim>\<open>None\<close> gets its default; an empty dict is not \<^verbatim>\<open>None\<close>
  and stays.
\<close>

definition ParallelAgent_init ::
  "string \<Rightarrow> string \<Rightarrow> AgentStatus \<Rightarrow> string option \<Rightarrow> string list option \<Rightarrow> int
     \<Rightarrow> (string \<times> real) list option \<Rightarrow> datetime \<Rightarrow> history_entry list option
     \<Rightarrow> (string \<times> real) list option \<Rightarrow> ParallelAgent" where
  "ParallelAgent_init aid atype st cur supported maxc pm la hist ru =
     \<lparr>agent_id = aid, agent_type = atype, agent_status = st, current_task = cur,
      supported_task_types = (case supported of None \<Rightarrow> [] | Some l \<Rightarrow> l),
      max_concurrent_tasks = maxc,
      performance_metrics = (case pm of None \<Rightarrow> default_performance_metrics | Some m \<Rightarrow> m),
      last_activity = la,
      task_history = (case hist of None \<Rightarrow> [] | Some h \<Rightarrow> h),
      resource_usage = (case ru of None \<Rightarrow> default_resource_usage | Some u \<Rightarrow> u)\<rparr>"

text \<open>
  A call of the constructor that may leave \<^verbatim>\<open>task_history\<close> out. The field has no
  default, so a call without it raises \<^verbatim>\<open>TypeError\<close> for the missing argument and builds
  no agent.
\<close>

definition ParallelAgent_call ::
  "string \<Rightarrow> string \<Rightarrow> AgentStatus \<Rightarrow> string option \<Rightarrow> string list option \<Rightarrow> int
     \<Rightarrow> (string \<times> real) list option \<Rightarrow> datetime \<Rightarrow> history_entry list option option
     \<Rightarrow> (string \<times> real) list option \<Rightarrow> py_error + ParallelAgent" where
  "ParallelAgent_call aid atype st cur supported maxc pm la hist_arg ru =
     (case hist_arg of
        None \<Rightarrow> Inl TypeError
      | Some hist \<Rightarrow> Inr (ParallelAgent_init aid atype st cur supported maxc pm la hist ru))"

subsection \<open>\<^verbatim>\<open>update_agent_metrics\<close>\<close>

text \<open>
  The method mutates the agent step by step and can raise on the way: \<^verbatim>\<open>KeyError\<close> for a
  metric that the dict lacks, and \<^verbatim>\<open>NameError\<close> in the efficiency update, which reads the
  undefined name \<^verbatim>\<open>response_time\<close> whenever the old response time is positive. The
  model returns the agent as the mutations made before the exception left it.
\<close>

definition set_metric :: "string \<Rightarrow> real \<Rightarrow> ParallelAgent \<Rightarrow> ParallelAgent" where
  "set_metric k v agent =
     agent\<lparr>performance_metrics := AList.update k v (performance_metrics agent)\<rparr>"

definition metric :: "ParallelAgent \<Rightarrow> string \<Rightarrow> real option" where
  "metric agent k = map_of (performance_metrics agent) k"

definition history_task_type :: "string option \<Rightarrow> string option" where
  "history_task_type cur =
     (case cur of None \<Rightarrow> None | Some [] \<Rightarrow> Some [] | Some (c # _) \<Rightarrow> Some [c])"

definition append_history :: "ParallelAgent \<Rightarrow> real \<Rightarrow> bool \<Rightarrow> datetime \<Rightarrow> ParallelAgent" where
  "append_history agent execution_time success now =
     (let h = task_history agent @
                [\<lparr>h_timestamp = now, h_execution_time = execution_time, h_success = success,
                  h_task_type = history_task_type (current_task agent)\<rparr>]
      in agent\<lparr>task_history := (if length h > 50 then drop (length h - 50) h else h)\<rparr>)"

definition update_agent_metrics ::
  "ParallelAgent \<Rightarrow> real \<Rightarrow> bool \<Rightarrow> datetime \<Rightarrow> py_error option \<times> ParallelAgent" where
  "update_agent_metrics agent execution_time success now =
     (let a1 = (if performance_metrics agent = []
                then agent\<lparr>performance_metrics := default_performance_metrics\<rparr> else agent)
      in case metric a1 ''response_time'' of
           None \<Rightarrow> (Some KeyError, a1)
         | Some old_response_time \<Rightarrow>
            (let a2 = (if old_response_time > 0
                       then set_metric ''response_time''
                              (old_response_time * 0.8 + execution_time * 0.2) a1
                       else a1)
             in (case metric a2 ''success_rate'' of
                  None \<Rightarrow> (Some KeyError, a2)
                | Some old_success_rate \<Rightarrow>
                   (let a3 = (if old_success_rate > 0
                              then set_metric ''success_rate''
                                     (old_success_rate * 0.9 + (if success then 1.0 else 0.0) * 0.1) a2
                              else a2)
                    in if old_response_time > 0 then (Some NameError, a3)
                       else
                        (let efficiency = 1.0 in
                         (case metric a3 ''efficiency'' of
                           None \<Rightarrow> (Some KeyError, a3)
                         | Some old_efficiency \<Rightarrow>
                             (None,
                              append_history
                                (set_metric ''efficiency''
                                   (old_efficiency * 0.8 + efficiency * 0.2) a3)
                                execution_time success now)))))))"

text \<open>
  A run of calls on one agent. A call that raises has already stored its updates, and its
  caller goes on with the agent as it is, so the next call starts from that agent.
\<close>

fun update_agent_metrics_calls ::
  "ParallelAgent \<Rightarrow> (real \<times> bool \<times> datetime) list \<Rightarrow> ParallelAgent" where
  "update_agent_metrics_calls agent [] = agent"
| "update_agent_metrics_calls agent ((execution_time, success, now) # calls) =
     update_agent_metrics_calls (snd (update_agent_metrics agent execution_time success now)) calls"

subsection \<open>The scheduler's state\<close>

text \<open>
  Task objects are shared: the task table, the priority queue and the list of ready
  tasks all hold references to the same \<^verbatim>\<open>ParallelTask\<close>, and a status written through one
  is seen through the others. The model keeps the objects in \<open>store\<close>, at the address
  (an index) that their creation gave them, and the table and the queue hold addresses.
  Agents are referenced from the pool only and are kept in it.
\<close>

type_synonym addr = nat

record schedule_stats_t =
  total_scheduled :: int
  total_completed :: int
  total_failed :: int
  average_execution_time :: real
  parallelism_efficiency :: real
  stats_timestamp :: datetime

record ParallelTaskScheduler =
  task_queue :: "(int \<times> addr) list"
  agent_pool :: "(string \<times> ParallelAgent) list"
  resource_pool :: ResourcePool
  scheduler_running :: bool
  tasks :: "(string \<times> addr) list"
  task_status_stats :: "(string \<times> TaskStatus) list"
  schedule_stats :: schedule_stats_t
  store :: "ParallelTask list"

definition update_task ::
  "addr \<Rightarrow> (ParallelTask \<Rightarrow> ParallelTask) \<Rightarrow> ParallelTaskScheduler \<Rightarrow> ParallelTaskScheduler" where
  "update_task a f s = s\<lparr>store := (store s)[a := f (store s ! a)]\<rparr>"

subsection \<open>\<^verbatim>\<open>register_agent\<close> and the constructor of the scheduler\<close>

text \<open>
  A configuration or submission record is a dict; a key that is left out is \<open>None\<close> here,
  and \<open>or_default\<close> is \<^verbatim>\<open>d.get(key, default)\<close>. \<^verbatim>\<open>agent_config['agent_id']\<close> raises
  \<^verbatim>\<open>KeyError\<close> without the key.
\<close>

definition or_default :: "'a option \<Rightarrow> 'a \<Rightarrow> 'a" where
  "or_default v dflt = (case v of None \<Rightarrow> dflt | Some x \<Rightarrow> x)"

record agent_config =
  ac_agent_id :: "string option"
  ac_agent_type :: "string option"
  ac_supported_tasks :: "string list option"
  ac_max_concurrent :: "int option"
  ac_performance_metrics :: "(string \<times> real) list option"

text \<open>
  \<^verbatim>\<open>register_agent\<close> calls the constructor with \<^verbatim>\<open>agent_id\<close>, \<^verbatim>\<open>agent_type\<close>,
  \<^verbatim>\<open>status\<close>, \<^verbatim>\<open>supported_task_types\<close>, \<^verbatim>\<open>max_concurrent_tasks\<close>,
  \<^verbatim>\<open>performance_metrics\<close> (the empty dict for a record without metrics) and
  \<^verbatim>\<open>last_activity\<close>. It does not give \<^verbatim>\<open>task_history\<close>, so the call raises and the
  store into \<^verbatim>\<open>agent_pool\<close>, which is unconditional, is not reached.
\<close>

definition register_agent ::
  "ParallelTaskScheduler \<Rightarrow> agent_config \<Rightarrow> datetime
     \<Rightarrow> py_error + (string \<times> ParallelTaskScheduler)" where
  "register_agent s agent_config now =
     (case ac_agent_id agent_config of
        None \<Rightarrow> Inl KeyError
      | Some aid \<Rightarrow>
          (case ParallelAgent_call aid
                  (or_default (ac_agent_type agent_config) ''unknown'')
                  IDLE
                  None
                  (Some (or_default (ac_supported_tasks agent_config) []))
                  (or_default (ac_max_concurrent agent_config) 1)
                  (Some (or_default (ac_performance_metrics agent_config) []))
                  now None None of
             Inl e \<Rightarrow> Inl e
           | Inr agent \<Rightarrow> Inr (aid, s\<lparr>agent_pool := AList.update aid agent (agent_pool s)\<rparr>)))"

definition predefined_agents :: "agent_config list" where
  "predefined_agents =
     [\<lparr>ac_agent_id = Some ''file_operations'', ac_agent_type = Some ''file_system'',
       ac_supported_tasks = Some [''file_operations'', ''directory_management'', ''path_operations''],
       ac_max_concurrent = Some 3,
       ac_performance_metrics =
         Some [(''response_time'', 0.5), (''success_rate'', 0.9), (''efficiency'', 0.85)]\<rparr>,
      \<lparr>ac_agent_id = Some ''code_generator'', ac_agent_type = Some ''code_generation'',
       ac_supported_tasks = Some [''code_generation'', ''code_analysis'', ''code_optimization''],
       ac_max_concurrent = Some 2,
       ac_performance_metrics =
         Some [(''response_time'', 2.0), (''success_rate'', 0.8), (''efficiency'', 0.75)]\<rparr>,
      \<lparr>ac_agent_id = Some ''tool_executor'', ac_agent_type = Some ''tool_execution'',
       ac_supported_tasks = Some [''tool_execute'', ''command_execution'', ''process_management''],
       ac_max_concurrent = Some 3,
       ac_performance_metrics =
         Some [(''response_time'', 1.5), (''success_rate'', 0.85), (''efficiency'', 0.8)]\<rparr>,
      \<lparr>ac_agent_id = Some ''agent_interceptor'', ac_agent_type = Some ''task_orchestration'',
       ac_supported_tasks = Some [''task_filtering'', ''task_routing'', ''parallel_coordination''],
       ac_max_concurrent = Some 5,
       ac_performance_metrics =
         Some [(''response_time'', 0.8), (''success_rate'', 0.9), (''efficiency'', 0.9)]\<rparr>]"

fun register_agents_loop ::
  "agent_config list \<Rightarrow> datetime \<Rightarrow> ParallelTaskScheduler \<Rightarrow> py_error + ParallelTaskScheduler" where
  "register_agents_loop [] now s = Inr s"
| "register_agents_loop (agent_config # rest) now s =
     (case register_agent s agent_config now of
        Inl e \<Rightarrow> Inl e
      | Inr (_, s') \<Rightarrow> register_agents_loop rest now s')"

definition register_predefined_agents ::
  "ParallelTaskScheduler \<Rightarrow> datetime \<Rightarrow> py_error + ParallelTaskScheduler" where
  "register_predefined_agents s now = register_agents_loop predefined_agents now s"

text \<open>
  \<^verbatim>\<open>ParallelTaskScheduler.__init__\<close> assigns the fields and ends in
  \<^verbatim>\<open>load_registered_agents\<close>, that is \<^verbatim>\<open>register_predefined_agents\<close>, whose exception
  leaves the constructor. One clock reading serves the whole constructor.
\<close>

definition ParallelTaskScheduler_fields ::
  "int option \<Rightarrow> memory_stats_t option \<Rightarrow> datetime \<Rightarrow> ParallelTaskScheduler" where
  "ParallelTaskScheduler_fields cpu_count psutil now =
     \<lparr>task_queue = [], agent_pool = [],
      resource_pool = ResourcePool_init None 80 cpu_count psutil,
      scheduler_running = False, tasks = [], task_status_stats = [],
      schedule_stats = \<lparr>total_scheduled = 0, total_completed = 0, total_failed = 0,
        average_execution_time = 0.0, parallelism_efficiency = 0.0, stats_timestamp = now\<rparr>,
      store = []\<rparr>"

definition ParallelTaskScheduler_init ::
  "int option \<Rightarrow> memory_stats_t option \<Rightarrow> datetime \<Rightarrow> py_error + ParallelTaskScheduler" where
  "ParallelTaskScheduler_init cpu_count psutil now =
     register_predefined_agents (ParallelTaskScheduler_fields cpu_count psutil now) now"

subsection \<open>The priority queue\<close>

text \<open>
  \<^verbatim>\<open>queue.PriorityQueue\<close> keeps its entries in a list ordered as a binary heap by
  \<^verbatim>\<open>heapq\<close>. An entry is the tuple \<^verbatim>\<open>(priority, task)\<close>. Tuples compare by their first
  differing component: for different priorities the priorities decide; for equal
  priorities the tasks are compared with \<^verbatim>\<open>==\<close> (identity first, then the field-wise
  equality of the data class), and if they differ with \<^verbatim>\<open><\<close>, which the data class does
  not define: \<^verbatim>\<open>TypeError\<close>.
\<close>

definition ParallelTask_eq :: "ParallelTask \<Rightarrow> ParallelTask \<Rightarrow> bool" where
  "ParallelTask_eq a b =
     (task_id a = task_id b \<and> task_type a = task_type b \<and> command a = command b \<and>
      args a = args b \<and> set (kwargs a) = set (kwargs b) \<and> priority a = priority b \<and>
      status a = status b \<and> created_at a = created_at b \<and> started_at a = started_at b \<and>
      completed_at a = completed_at b \<and> result a = result b \<and> error a = error b \<and>
      dependencies a = dependencies b \<and> max_wait_time a = max_wait_time b \<and>
      set (resource_requirements a) = set (resource_requirements b))"

definition entry_lt :: "ParallelTask list \<Rightarrow> int \<times> addr \<Rightarrow> int \<times> addr \<Rightarrow> py_error + bool" where
  "entry_lt st x y =
     (if fst x \<noteq> fst y then Inr (fst x < fst y)
      else if snd x = snd y \<or> ParallelTask_eq (st ! snd x) (st ! snd y) then Inr False
      else Inl TypeError)"

text \<open>
  The two sifting loops of \<^verbatim>\<open>heapq\<close>, in the exchanging form of the C module that
  \<^verbatim>\<open>heapq\<close> loads: a comparison that raises leaves the list a permutation of its entries.
\<close>

function siftdown ::
  "ParallelTask list \<Rightarrow> (int \<times> addr) list \<Rightarrow> nat \<Rightarrow> nat \<Rightarrow> py_error option \<times> (int \<times> addr) list" where
  "siftdown st heap startpos pos =
     (if pos > startpos
      then (let parentpos = (pos - 1) div 2 in
            case entry_lt st (heap ! pos) (heap ! parentpos) of
              Inl e \<Rightarrow> (Some e, heap)
            | Inr lt \<Rightarrow>
                (if lt
                 then siftdown st (heap[parentpos := heap ! pos, pos := heap ! parentpos])
                        startpos parentpos
                 else (None, heap)))
      else (None, heap))"
  by pat_completeness auto
termination
  by (relation "measure (\<lambda>(st, heap, startpos, pos). pos)") auto

declare siftdown.simps [simp del]

function siftup_loop ::
  "ParallelTask list \<Rightarrow> (int \<times> addr) list \<Rightarrow> nat \<Rightarrow> py_error option \<times> (int \<times> addr) list \<times> nat" where
  "siftup_loop st heap pos =
     (let endpos = length heap; limit = endpos div 2 in
      if pos < limit
      then (let childpos = 2 * pos + 1 in
            case (if childpos + 1 < endpos
                  then (case entry_lt st (heap ! childpos) (heap ! (childpos + 1)) of
                          Inl e \<Rightarrow> Inl e
                        | Inr lt \<Rightarrow> Inr (if lt then childpos else childpos + 1))
                  else Inr childpos) of
              Inl e \<Rightarrow> (Some e, heap, pos)
            | Inr c \<Rightarrow> siftup_loop st (heap[c := heap ! pos, pos := heap ! c]) c)
      else (None, heap, pos))"
  by pat_completeness auto
termination
  by (relation "measure (\<lambda>(st, heap, pos). length heap - pos)") (auto split: if_splits sum.splits)

declare siftup_loop.simps [simp del]

definition siftup ::
  "ParallelTask list \<Rightarrow> (int \<times> addr) list \<Rightarrow> nat \<Rightarrow> py_error option \<times> (int \<times> addr) list" where
  "siftup st heap pos =
     (case siftup_loop st heap pos of
        (Some e, heap', _) \<Rightarrow> (Some e, heap')
      | (None, heap', pos') \<Rightarrow> siftdown st heap' pos pos')"

definition heappush ::
  "ParallelTask list \<Rightarrow> (int \<times> addr) list \<Rightarrow> int \<times> addr \<Rightarrow> py_error option \<times> (int \<times> addr) list" where
  "heappush st heap item = siftdown st (heap @ [item]) 0 (length heap)"

definition heappop ::
  "ParallelTask list \<Rightarrow> (int \<times> addr) list
     \<Rightarrow> (py_error + (int \<times> addr)) \<times> (int \<times> addr) list" where
  "heappop st heap =
     (if heap = [] then (Inl IndexError, heap) else
      let lastelt = last heap; heap1 = butlast heap in
      if heap1 = [] then (Inr lastelt, heap1)
      else (let returnitem = heap1 ! 0 in
            case siftup st (heap1[0 := lastelt]) 0 of
              (Some e, heap2) \<Rightarrow> (Inl e, heap2)
            | (None, heap2) \<Rightarrow> (Inr returnitem, heap2)))"

text \<open>Sifting keeps the length, and a pop takes one entry away: the drain loop ends.\<close>

lemma length_siftdown: "length (snd (siftdown st heap startpos pos)) = length heap"
  by (induction st heap startpos pos rule: siftdown.induct)
     (subst siftdown.simps, auto simp: Let_def split: sum.splits)

lemma length_siftup_loop: "length (fst (snd (siftup_loop st heap pos))) = length heap"
  by (induction st heap pos rule: siftup_loop.induct)
     (subst siftup_loop.simps, auto simp: Let_def split: sum.splits if_splits)

lemma length_siftup: "length (snd (siftup st heap pos)) = length heap"
  using length_siftup_loop [of st heap pos] length_siftdown
  by (auto simp: siftup_def split: prod.splits option.splits)

lemma length_heappop: "length (snd (heappop st heap)) = length heap - 1"
proof (cases "heap = [] \<or> butlast heap = []")
  case True
  then have "length heap - 1 = 0" by (metis length_butlast list.size(3) diff_0_eq_0)
  with True show ?thesis by (auto simp: heappop_def Let_def)
next
  case False
  then show ?thesis
    using length_siftup [of st "(butlast heap)[0 := last heap]" 0]
    by (auto simp: heappop_def Let_def split: prod.splits option.splits)
qed

subsection \<open>\<^verbatim>\<open>schedule_task\<close>\<close>

record task_data =
  td_task_type :: "string option"
  td_command :: "string option"
  td_args :: "string list option"
  td_kwargs :: "(string \<times> string) list option"
  td_priority :: "int option"
  td_dependencies :: "string list option"
  td_max_wait_time :: "int option"
  td_resource_requirements :: "(string \<times> real) list option"

text \<open>
  The identifier is the text \<^verbatim>\<open>task_\<close>, the clock to the second, and the number of
  entries the task table has at the call. The task is entered into the table, the status
  index and the counter before it is put on the queue, so a \<^verbatim>\<open>put\<close> that raises leaves
  them changed and returns no identifier.
\<close>

definition schedule_task ::
  "ParallelTaskScheduler \<Rightarrow> task_data \<Rightarrow> datetime \<Rightarrow> datetime
     \<Rightarrow> (py_error + string) \<times> ParallelTaskScheduler" where
  "schedule_task s td now_id now_created =
     (let tid = ''task_'' @ strftime_Ymd_HMS now_id @ ''_'' @ str_nat (length (tasks s));
          task = ParallelTask_init tid
                   (or_default (td_task_type td) ''unknown'')
                   (or_default (td_command td) [])
                   (or_default (td_args td) [])
                   (or_default (td_kwargs td) [])
                   (or_default (td_priority td) 0)
                   PENDING now_created
                   (Some (or_default (td_dependencies td) []))
                   (or_default (td_max_wait_time td) 604800)
                   (Some (or_default (td_resource_requirements td) []));
          a = length (store s);
          s1 = s\<lparr>store := store s @ [task],
                 tasks := AList.update tid a (tasks s),
                 task_status_stats := AList.update tid (status task) (task_status_stats s),
                 schedule_stats := (schedule_stats s)
                   \<lparr>total_scheduled := total_scheduled (schedule_stats s) + 1\<rparr>\<rparr>;
          prio = - priority task
      in case heappush (store s1) (task_queue s1) (prio, a) of
           (Some e, q) \<Rightarrow> (Inl e, s1\<lparr>task_queue := q\<rparr>)
         | (None, q) \<Rightarrow> (Inr tid, s1\<lparr>task_queue := q\<rparr>))"

subsection \<open>Suitability scoring and \<^verbatim>\<open>find_suitable_agent\<close>\<close>

text \<open>
  \<^verbatim>\<open>len(agent.current_task)\<close> is the length of the identifier held in
  \<^verbatim>\<open>current_task\<close>, and raises \<^verbatim>\<open>TypeError\<close> when the agent holds \<^verbatim>\<open>None\<close>. The
  performance term is added only inside \<^verbatim>\<open>if agent.performance_metrics:\<close>, so an empty
  dict adds nothing.
\<close>

definition calculate_agent_suitability_score :: "ParallelAgent \<Rightarrow> ParallelTask \<Rightarrow> py_error + real" where
  "calculate_agent_suitability_score agent task =
     (let score0 = 0.0;
          score1 = (if task_type task \<in> set (supported_task_types agent)
                    then score0 + 0.4 else score0);
          score2 = (if performance_metrics agent \<noteq> []
                    then score1 + snd (hd (performance_metrics agent)) * 0.3 else score1)
      in case current_task agent of
           None \<Rightarrow> Inl TypeError
         | Some cur \<Rightarrow>
            (let current_load = real (length cur) / max (real_of_int (max_concurrent_tasks agent)) 1.0;
                 availability_score = 1.0 - current_load;
                 score3 = score2 + availability_score * 0.2;
                 score4 = (if task_history agent \<noteq> []
                           then (let recent_tasks =
                                       drop (length (task_history agent) - 5) (task_history agent);
                                     success_rate = real (length (filter h_success recent_tasks))
                                                      / real (length recent_tasks)
                                 in score3 + success_rate * 0.1)
                           else score3)
             in Inr score4))"

text \<open>The loop over \<^verbatim>\<open>agent_pool.items()\<close> that collects \<^verbatim>\<open>(score, agent)\<close> pairs.\<close>

fun suitable_agents_loop ::
  "ParallelTask \<Rightarrow> (string \<times> ParallelAgent) list \<Rightarrow> py_error + (real \<times> ParallelAgent) list" where
  "suitable_agents_loop task [] = Inr []"
| "suitable_agents_loop task ((aid, agent) # rest) =
     (if agent_status agent = IDLE \<and> task_type task \<in> set (supported_task_types agent)
      then (case current_task agent of
              None \<Rightarrow> Inl TypeError
            | Some cur \<Rightarrow>
               (if int (length cur) < max_concurrent_tasks agent
                then (case calculate_agent_suitability_score agent task of
                        Inl e \<Rightarrow> Inl e
                      | Inr score \<Rightarrow>
                         (case suitable_agents_loop task rest of
                            Inl e \<Rightarrow> Inl e
                          | Inr l \<Rightarrow> Inr ((score, agent) # l)))
                else suitable_agents_loop task rest))
      else suitable_agents_loop task rest)"

text \<open>
  \<^verbatim>\<open>sort(key=lambda x: x[0], reverse=True)\<close> is a stable sort by falling score, which
  \<^const>\<open>sort_key\<close> on the negated score is.
\<close>

definition find_suitable_agent ::
  "ParallelTaskScheduler \<Rightarrow> ParallelTask \<Rightarrow> py_error + ParallelAgent option" where
  "find_suitable_agent s task =
     (case suitable_agents_loop task (agent_pool s) of
        Inl e \<Rightarrow> Inl e
      | Inr suitable_agents \<Rightarrow>
          (if suitable_agents \<noteq> []
           then Inr (Some (snd (hd (sort_key (\<lambda>x. - fst x) suitable_agents))))
           else Inr None))"

subsection \<open>\<^verbatim>\<open>execute_task\<close>\<close>

text \<open>
  The method sets the status to Running and the start time, and its next statement,
  \<^verbatim>\<open>self.task_status_stats[task_id] = task.status\<close>, reads \<^verbatim>\<open>task_id\<close>, which is neither a
  local of the method nor a global of the module: \<^verbatim>\<open>NameError\<close>, on every call. The
  \<^verbatim>\<open>except\<close> clause sets the status to Failed, the error text and the completion time,
  and then formats \<^verbatim>\<open>task_id\<close> into its log line: a second \<^verbatim>\<open>NameError\<close>, which leaves the
  method. The statements after these two are never reached.
\<close>

definition NameError_message :: "string \<Rightarrow> string" where
  "NameError_message n = ''name '' @ [CHR 0x27] @ n @ [CHR 0x27] @ '' is not defined''"

definition execute_task_enter ::
  "ParallelTaskScheduler \<Rightarrow> addr \<Rightarrow> datetime \<Rightarrow> ParallelTaskScheduler" where
  "execute_task_enter s a now =
     update_task a (\<lambda>t. t\<lparr>status := RUNNING, started_at := Some now\<rparr>) s"

definition execute_task_except ::
  "ParallelTaskScheduler \<Rightarrow> addr \<Rightarrow> string \<Rightarrow> datetime \<Rightarrow> ParallelTaskScheduler" where
  "execute_task_except s a msg now =
     update_task a (\<lambda>t. t\<lparr>status := FAILED, error := Some msg, completed_at := Some now\<rparr>) s"

definition execute_task ::
  "ParallelTaskScheduler \<Rightarrow> addr \<Rightarrow> datetime \<Rightarrow> datetime
     \<Rightarrow> (py_error + bool \<times> string) \<times> ParallelTaskScheduler" where
  "execute_task s a now_started now_failed =
     (let s1 = execute_task_enter s a now_started;
          s2 = execute_task_except s1 a (NameError_message ''task_id'') now_failed
      in (Inl NameError, s2))"

subsection \<open>\<^verbatim>\<open>process_ready_tasks\<close>\<close>

text \<open>
  The drain loop: while the queue is not empty, take its least entry; a task that
  \<^verbatim>\<open>can_allocate_task\<close> admits joins \<^verbatim>\<open>ready_tasks\<close>, any other is put back and ends the
  loop. The loop does not look at the task's dependencies, and it does not take a worker.
\<close>

function drain_queue ::
  "ParallelTaskScheduler \<Rightarrow> addr list \<Rightarrow> (py_error + addr list) \<times> ParallelTaskScheduler" where
  "drain_queue s ready_tasks =
     (if task_queue s = [] then (Inr ready_tasks, s)
      else (case heappop (store s) (task_queue s) of
              (Inl e, q) \<Rightarrow> (Inl e, s\<lparr>task_queue := q\<rparr>)
            | (Inr (prio, task), q) \<Rightarrow>
                (case can_allocate_task (resource_pool s) (resource_requirements (store s ! task)) of
                   Inl e \<Rightarrow> (Inl e, s\<lparr>task_queue := q\<rparr>)
                 | Inr ok \<Rightarrow>
                    (if ok then drain_queue (s\<lparr>task_queue := q\<rparr>) (ready_tasks @ [task])
                     else (case heappush (store s) q (prio, task) of
                             (Some e, q') \<Rightarrow> (Inl e, s\<lparr>task_queue := q'\<rparr>)
                           | (None, q') \<Rightarrow> (Inr ready_tasks, s\<lparr>task_queue := q'\<rparr>))))))"
  by pat_completeness auto
termination
proof (relation "measure (\<lambda>(s, ready_tasks). length (task_queue s))", goal_cases)
  case 1
  show ?case by simp
next
  case (2 s ready_tasks x y b xa ya ba)
  from 2(2) have "y = snd (heappop (store s) (task_queue s))" by (metis snd_conv)
  with length_heappop [of "store s" "task_queue s"] 2(1) show ?case
    by (cases "task_queue s") auto
qed

declare drain_queue.simps [simp del]

text \<open>
  The dispatch loop: \<^verbatim>\<open>allocate_resources\<close> on each ready task, and for each success a
  submission of \<^verbatim>\<open>execute_task\<close> to the executor. The submitted call writes the fields of
  its own task only, so the model runs it at its submission; its exception stays in the
  future, which the completion loop never asks for its result (no future has the
  attribute \<^verbatim>\<open>_task_id\<close>, so \<^verbatim>\<open>task_id\<close> stays \<^verbatim>\<open>None\<close> there). \<open>clk\<close> gives the two clock
  readings of the call for a task.
\<close>

fun dispatch_loop ::
  "(addr \<Rightarrow> datetime \<times> datetime) \<Rightarrow> addr list \<Rightarrow> ParallelTaskScheduler \<Rightarrow> ParallelTaskScheduler" where
  "dispatch_loop clk [] s = s"
| "dispatch_loop clk (task # rest) s =
     (case allocate_resources (resource_pool s) (store s ! task) of
        (ok, rp, t) \<Rightarrow>
          (if ok
           then (let s1 = s\<lparr>resource_pool := rp, store := (store s)[task := t]\<rparr>;
                     s2 = snd (execute_task s1 task (fst (clk task)) (snd (clk task)))
                 in dispatch_loop clk rest s2)
           else dispatch_loop clk rest s))"

text \<open>
  \<^verbatim>\<open>update_agent_status_after_task\<close>: every agent that holds the task's identifier is set
  free and Idle and, when the task has both times, gets \<^verbatim>\<open>update_agent_metrics\<close>, whose
  exception leaves the loop.
\<close>

fun update_agents_loop ::
  "ParallelTask \<Rightarrow> (string \<Rightarrow> datetime) \<Rightarrow> (string \<times> ParallelAgent) list
     \<Rightarrow> py_error option \<times> (string \<times> ParallelAgent) list" where
  "update_agents_loop task clk [] = (None, [])"
| "update_agents_loop task clk ((k, agent) # rest) =
     (if current_task agent = Some (task_id task)
      then (let a1 = agent\<lparr>current_task := None, agent_status := IDLE\<rparr> in
            case (started_at task, completed_at task) of
              (Some st, Some ct) \<Rightarrow>
                (case update_agent_metrics a1 (total_seconds ct st) (status task = COMPLETED) (clk k) of
                   (Some e, a2) \<Rightarrow> (Some e, (k, a2) # rest)
                 | (None, a2) \<Rightarrow>
                     (case update_agents_loop task clk rest of
                        (e, rest') \<Rightarrow> (e, (k, a2) # rest')))
            | _ \<Rightarrow> (case update_agents_loop task clk rest of
                        (e, rest') \<Rightarrow> (e, (k, a1) # rest')))
      else (case update_agents_loop task clk rest of
              (e, rest') \<Rightarrow> (e, (k, agent) # rest')))"

definition update_agent_status_after_task ::
  "ParallelTaskScheduler \<Rightarrow> addr \<Rightarrow> (string \<Rightarrow> datetime)
     \<Rightarrow> py_error option \<times> ParallelTaskScheduler" where
  "update_agent_status_after_task s task clk =
     (case update_agents_loop (store s ! task) clk (agent_pool s) of
        (e, pool) \<Rightarrow> (e, s\<lparr>agent_pool := pool\<rparr>))"

text \<open>
  The release loop runs over all of \<^verbatim>\<open>ready_tasks\<close>, also over the tasks whose
  allocation returned false.
\<close>

fun release_loop ::
  "(addr \<Rightarrow> string \<Rightarrow> datetime) \<Rightarrow> addr list \<Rightarrow> ParallelTaskScheduler
     \<Rightarrow> py_error option \<times> ParallelTaskScheduler" where
  "release_loop clk [] s = (None, s)"
| "release_loop clk (task # rest) s =
     (case release_resources (resource_pool s) (store s ! task) of
        (rp, t) \<Rightarrow>
          (let s1 = s\<lparr>resource_pool := rp, store := (store s)[task := t]\<rparr> in
           case update_agent_status_after_task s1 task (clk task) of
             (Some e, s2) \<Rightarrow> (Some e, s2)
           | (None, s2) \<Rightarrow> release_loop clk rest s2))"

definition process_ready_tasks ::
  "ParallelTaskScheduler \<Rightarrow> (addr \<Rightarrow> datetime \<times> datetime) \<Rightarrow> (addr \<Rightarrow> string \<Rightarrow> datetime)
     \<Rightarrow> py_error option \<times> ParallelTaskScheduler" where
  "process_ready_tasks s exec_clk hist_clk =
     (case drain_queue s [] of
        (Inl e, s1) \<Rightarrow> (Some e, s1)
      | (Inr ready_tasks, s1) \<Rightarrow>
          (if ready_tasks \<noteq> []
           then release_loop hist_clk ready_tasks (dispatch_loop exec_clk ready_tasks s1)
           else (None, s1)))"

subsection \<open>\<^verbatim>\<open>cleanup_completed_tasks\<close>\<close>

definition prunable :: "datetime \<Rightarrow> ParallelTask \<Rightarrow> bool" where
  "prunable current_time task =
     (case completed_at task of
        None \<Rightarrow> False
      | Some c \<Rightarrow> total_seconds current_time c > 24 * 3600
                  \<and> status task \<in> set [COMPLETED, FAILED])"

text \<open>\<^verbatim>\<open>del self.tasks[task_id]\<close> raises \<^verbatim>\<open>KeyError\<close> for a key that is not there.\<close>

fun remove_tasks ::
  "string list \<Rightarrow> ParallelTaskScheduler \<Rightarrow> py_error option \<times> ParallelTaskScheduler" where
  "remove_tasks [] s = (None, s)"
| "remove_tasks (tid # rest) s =
     (case map_of (tasks s) tid of
        None \<Rightarrow> (Some KeyError, s)
      | Some _ \<Rightarrow>
          remove_tasks rest
            (s\<lparr>tasks := AList.delete tid (tasks s),
               task_status_stats := AList.delete tid (task_status_stats s)\<rparr>))"

definition cleanup_completed_tasks ::
  "ParallelTaskScheduler \<Rightarrow> datetime \<Rightarrow> py_error option \<times> ParallelTaskScheduler" where
  "cleanup_completed_tasks s current_time =
     (let tasks_to_remove =
            map fst (filter (\<lambda>(tid, a). prunable current_time (store s ! a)) (tasks s))
      in remove_tasks tasks_to_remove s)"

subsection \<open>\<^verbatim>\<open>are_dependencies_met\<close>\<close>

text \<open>
  The loop returns or raises at its first dependency: \<^verbatim>\<open>not dep_task\<close> holds for an
  identifier without a record, and the method returns false; for a record, the second
  operand builds the list \<^verbatim>\<open>[TaskStatus.COMPLETED, TaskStatus.SUCCESS]\<close>, and
  \<^verbatim>\<open>TaskStatus\<close> has no member \<^verbatim>\<open>SUCCESS\<close>: \<^verbatim>\<open>AttributeError\<close>.
\<close>

fun dependencies_loop :: "ParallelTaskScheduler \<Rightarrow> string list \<Rightarrow> py_error + bool" where
  "dependencies_loop s [] = Inr True"
| "dependencies_loop s (dep_id # rest) =
     (case map_of (tasks s) dep_id of
        None \<Rightarrow> Inr False
      | Some dep_task \<Rightarrow> Inl AttributeError)"

definition are_dependencies_met :: "ParallelTaskScheduler \<Rightarrow> ParallelTask \<Rightarrow> py_error + bool" where
  "are_dependencies_met s task = dependencies_loop s (dependencies task)"

subsection \<open>Notions of the specification\<close>

text \<open>
  The number of tasks an agent holds, the success rate over its last five history entries,
  and the suitability score as the specification words it.
\<close>

definition current_assigned :: "ParallelAgent \<Rightarrow> nat" where
  "current_assigned agent = (case current_task agent of None \<Rightarrow> 0 | Some cur \<Rightarrow> 1)"

definition recent_success_rate :: "ParallelAgent \<Rightarrow> real" where
  "recent_success_rate agent =
     (if task_history agent = [] then 0
      else real (length (filter h_success (drop (length (task_history agent) - 5) (task_history agent))))
           / real (length (drop (length (task_history agent) - 5) (task_history agent))))"

definition claimed_score :: "ParallelAgent \<Rightarrow> real" where
  "claimed_score agent =
     0.4 + 0.3 * (if performance_metrics agent = [] then 1.0 else snd (hd (performance_metrics agent)))
         + 0.2 * (1 - real (current_assigned agent) / real_of_int (max_concurrent_tasks agent))
         + 0.1 * recent_success_rate agent"

subsection \<open>Example states\<close>

text \<open>
  Two clock readings 49 hours apart, one an hour before the second, and the scheduler
  with the fields that its constructor assigns before it loads the agents, on a machine
  with one CPU (two workers) and 16 GiB of memory, half of it used.
\<close>

definition boot_time :: datetime where
  "boot_time =
     \<lparr>year = 2024, month = 2, day = 28, hour = 11, minute = 0, second = 0, microsecond = 0\<rparr>"

definition noon_2024_03_01 :: datetime where
  "noon_2024_03_01 =
     \<lparr>year = 2024, month = 3, day = 1, hour = 12, minute = 0, second = 0, microsecond = 0\<rparr>"

definition an_hour_before_noon :: datetime where
  "an_hour_before_noon =
     \<lparr>year = 2024, month = 3, day = 1, hour = 11, minute = 0, second = 0, microsecond = 0\<rparr>"

definition mem_16g :: memory_stats_t where
  "mem_16g = \<lparr>total = 17179869184, available = 8589934592, used = 8589934592, percent = 50\<rparr>"

definition fresh_scheduler :: ParallelTaskScheduler where
  "fresh_scheduler =
     \<lparr>task_queue = [], agent_pool = [],
      resource_pool = \<lparr>max_workers = 2, max_memory_percent = 80, available_workers = 2,
                        allocated_memory = 0, memory_stats = mem_16g\<rparr>,
      scheduler_running = False, tasks = [], task_status_stats = [],
      schedule_stats = \<lparr>total_scheduled = 0, total_completed = 0, total_failed = 0,
        average_execution_time = 0, parallelism_efficiency = 0, stats_timestamp = boot_time\<rparr>,
      store = []\<rparr>"

text \<open>
  The agents that the first and the third record of \<^verbatim>\<open>register_predefined_agents\<close>
  describe, built by a constructor call that gives \<^verbatim>\<open>task_history\<close>; \<^verbatim>\<open>current_task\<close> has
  its default \<^verbatim>\<open>None\<close>. The second of them alone makes the pool of \<open>one_agent_scheduler\<close>.
\<close>

definition file_operations_agent :: ParallelAgent where
  "file_operations_agent =
     ParallelAgent_init ''file_operations'' ''file_system'' IDLE None
       (Some [''file_operations'', ''directory_management'', ''path_operations'']) 3
       (Some [(''response_time'', 0.5), (''success_rate'', 0.9), (''efficiency'', 0.85)])
       boot_time None None"

definition tool_executor_agent :: ParallelAgent where
  "tool_executor_agent =
     ParallelAgent_init ''tool_executor'' ''tool_execution'' IDLE None
       (Some [''tool_execute'', ''command_execution'', ''process_management'']) 3
       (Some [(''response_time'', 1.5), (''success_rate'', 0.85), (''efficiency'', 0.8)])
       boot_time None None"

definition one_agent_scheduler :: ParallelTaskScheduler where
  "one_agent_scheduler = fresh_scheduler\<lparr>agent_pool := [(''tool_executor'', tool_executor_agent)]\<rparr>"

text \<open>The resource pool of a machine with one CPU and without \<^verbatim>\<open>psutil\<close>.\<close>

definition pool_without_psutil :: ResourcePool where
  "pool_without_psutil = ResourcePool_init None 80 (Some 1) None"

text \<open>Submission records: a shell command with a priority, and one with a dependency.\<close>

definition shell_task :: "int \<Rightarrow> task_data" where
  "shell_task p =
     \<lparr>td_task_type = Some ''command_execution'', td_command = Some ''ls'', td_args = None,
      td_kwargs = None, td_priority = Some p, td_dependencies = None,
      td_max_wait_time = None, td_resource_requirements = None\<rparr>"

definition dependent_task :: task_data where
  "dependent_task = (shell_task 1)\<lparr>td_dependencies := Some [''task_20240228_110000_7'']\<rparr>"

text \<open>The clocks of a tick in which every reading is the same.\<close>

definition exec_at :: "datetime \<Rightarrow> addr \<Rightarrow> datetime \<times> datetime" where
  "exec_at t a = (t, t)"

definition hist_at :: "datetime \<Rightarrow> addr \<Rightarrow> string \<Rightarrow> datetime" where
  "hist_at t a k = t"

text \<open>
  Scenario 1: three tasks of priorities 1, 2 and 3 are submitted to the fresh scheduler.
\<close>

definition three_submitted :: ParallelTaskScheduler where
  "three_submitted =
     snd (schedule_task
       (snd (schedule_task
         (snd (schedule_task fresh_scheduler (shell_task 1) boot_time boot_time))
         (shell_task 2) boot_time boot_time))
       (shell_task 3) boot_time boot_time)"

text \<open>Scenario 2: one task is submitted whose dependency has no record.\<close>

definition dependent_submitted :: ParallelTaskScheduler where
  "dependent_submitted = snd (schedule_task fresh_scheduler dependent_task boot_time boot_time)"

text \<open>
  Scenario 3: a task is submitted and processed at boot time; 49 hours later a second task
  is submitted, the prune step runs, and a third task is submitted in the same second.
\<close>

definition first_processed :: ParallelTaskScheduler where
  "first_processed =
     snd (process_ready_tasks
       (snd (schedule_task fresh_scheduler (shell_task 1) boot_time boot_time))
       (exec_at boot_time) (hist_at boot_time))"

definition second_submitted :: "(py_error + string) \<times> ParallelTaskScheduler" where
  "second_submitted = schedule_task first_processed (shell_task 1) noon_2024_03_01 noon_2024_03_01"

definition pruned :: ParallelTaskScheduler where
  "pruned = snd (cleanup_completed_tasks (snd second_submitted) noon_2024_03_01)"

definition third_submitted :: "(py_error + string) \<times> ParallelTaskScheduler" where
  "third_submitted = schedule_task pruned (shell_task 2) noon_2024_03_01 noon_2024_03_01"

text \<open>
  A task table with a Cancelled task and one with two Completed tasks, each with its
  completion time: 49 hours and one hour before noon of 1 March.
\<close>

definition finished_task :: "string \<Rightarrow> TaskStatus \<Rightarrow> datetime \<Rightarrow> ParallelTask" where
  "finished_task tid st t =
     (ParallelTask_init tid ''command_execution'' ''ls'' [] [] 1 st boot_time (Some []) 604800 (Some []))
       \<lparr>started_at := Some boot_time, completed_at := Some t\<rparr>"

definition cancelled_state :: ParallelTaskScheduler where
  "cancelled_state =
     fresh_scheduler
       \<lparr>tasks := [(''task_20240228_110000_0'', 0)],
        task_status_stats := [(''task_20240228_110000_0'', CANCELLED)],
        store := [finished_task ''task_20240228_110000_0'' CANCELLED boot_time]\<rparr>"

definition retention_state :: ParallelTaskScheduler where
  "retention_state =
     fresh_scheduler
       \<lparr>tasks := [(''task_20240228_110000_0'', 0), (''task_20240301_110000_1'', 1)],
        task_status_stats := [(''task_20240228_110000_0'', COMPLETED),
                              (''task_20240301_110000_1'', COMPLETED)],
        store := [finished_task ''task_20240228_110000_0'' COMPLETED boot_time,
                  finished_task ''task_20240301_110000_1'' COMPLETED an_hour_before_noon]\<rparr>"

text \<open>
  A task of a type that \<open>tool_executor_agent\<close> supports, and a registration record that
  names an identifier and nothing else.
\<close>

definition command_task :: ParallelTask where
  "command_task =
     ParallelTask_init ''task_20240228_110000_0'' ''command_execution'' ''ls'' [] [] 1 PENDING
       boot_time (Some []) 604800 (Some [])"

definition bare_config :: agent_config where
  "bare_config =
     \<lparr>ac_agent_id = Some ''file_operations'', ac_agent_type = None, ac_supported_tasks = None,
      ac_max_concurrent = None, ac_performance_metrics = None\<rparr>"

section \<open>Admission control\<close>

text \<open>With a zero total and a free worker the division raises.\<close>

lemma can_allocate_task_zero_total:
  assumes "total (memory_stats rp) = 0" and "available_workers rp > 0"
  shows "can_allocate_task rp reqs = Inl ZeroDivisionError"
  using assms by (simp add: can_allocate_task_def Let_def)

text \<open>
  C5. For every resource-requirements map, \<^verbatim>\<open>can_allocate_task\<close> returns true iff a
  worker is available and the projected memory usage does not exceed
  \<^verbatim>\<open>max_memory_percent\<close>. The code does not keep to it: on the pool that the constructor
  builds when \<^verbatim>\<open>psutil\<close> is missing, the memory snapshot has total 0 and both workers are
  free, and the method raises \<^verbatim>\<open>ZeroDivisionError\<close> for the default requirement and for
  an explicit one, and returns nothing.
\<close>

theorem can_allocate_task_raises_without_psutil:
  "available_workers pool_without_psutil = 2
   \<and> total (memory_stats pool_without_psutil) = 0
   \<and> can_allocate_task pool_without_psutil [] = Inl ZeroDivisionError
   \<and> can_allocate_task pool_without_psutil [(''memory_mb'', 10)] = Inl ZeroDivisionError"
  by (simp add: pool_without_psutil_def ResourcePool_init_def get_memory_stats_def
      can_allocate_task_def Let_def)

section \<open>Agent metrics\<close>

lemma metric_set_metric: "metric (set_metric k v a) k' = (if k' = k then Some v else metric a k')"
  by (simp add: metric_def set_metric_def update_conv')

lemma metric_append_history: "metric (append_history a t s n) k = metric a k"
  by (simp add: metric_def append_history_def Let_def)

lemma metric_Some_nonempty: "metric a k = Some r \<Longrightarrow> performance_metrics a \<noteq> []"
  by (auto simp: metric_def)

text \<open>One call either keeps the success rate or replaces a positive one by its smoothed value.\<close>

lemma success_rate_after_call:
  assumes "metric a ''success_rate'' = Some r"
  shows "metric (snd (update_agent_metrics a t ok now)) ''success_rate'' = Some r \<or>
         (0 < r \<and> metric (snd (update_agent_metrics a t ok now)) ''success_rate'' =
           Some (r * 0.9 + (if ok then 1.0 else 0.0) * 0.1))"
  using assms metric_Some_nonempty [OF assms]
  by (auto simp: update_agent_metrics_def Let_def metric_set_metric metric_append_history
      split: option.splits)

lemma response_time_after_call:
  assumes "metric a ''response_time'' = Some r"
  shows "metric (snd (update_agent_metrics a t ok now)) ''response_time'' = Some r \<or>
         (0 < r \<and> metric (snd (update_agent_metrics a t ok now)) ''response_time'' =
           Some (r * 0.8 + t * 0.2))"
  using assms metric_Some_nonempty [OF assms]
  by (auto simp: update_agent_metrics_def Let_def metric_set_metric metric_append_history
      split: option.splits)

lemma smoothed_success_rate_bounds:
  "0 \<le> (r::real) \<Longrightarrow> r \<le> 1 \<Longrightarrow>
   0 \<le> r * 0.9 + (if ok then 1.0 else 0.0) * 0.1 \<and> r * 0.9 + (if ok then 1.0 else 0.0) * 0.1 \<le> 1"
  by auto

lemma success_rate_call_bounds:
  assumes "metric a ''success_rate'' = Some r" "0 \<le> r" "r \<le> 1"
  shows "\<exists>r'. metric (snd (update_agent_metrics a t ok now)) ''success_rate'' = Some r'
           \<and> 0 \<le> r' \<and> r' \<le> 1"
  using success_rate_after_call [OF assms(1), of t ok now]
    smoothed_success_rate_bounds [OF assms(2,3), of ok] assms(2,3)
  by blast

text \<open>
  C7. For an agent whose \<^verbatim>\<open>success_rate\<close> metric lies in \<open>[0, 1]\<close>, after any finite
  number of \<^verbatim>\<open>update_agent_metrics\<close> calls with non-negative execution times and any
  success flags, the \<^verbatim>\<open>success_rate\<close> metric is still there and lies in \<open>[0, 1]\<close>.
\<close>

theorem success_rate_stays_in_unit_interval:
  assumes "metric agent ''success_rate'' = Some r" and "0 \<le> r" and "r \<le> 1"
    and "\<forall>c \<in> set calls. 0 \<le> fst c"
  shows "\<exists>r'. metric (update_agent_metrics_calls agent calls) ''success_rate'' = Some r'
           \<and> 0 \<le> r' \<and> r' \<le> 1"
  using assms
proof (induction calls arbitrary: agent r)
  case Nil
  then show ?case by simp
next
  case (Cons c calls)
  obtain t ok now where c: "c = (t, ok, now)" by (cases c)
  from success_rate_call_bounds [OF Cons.prems(1-3), of t ok now]
  obtain r1 where r1: "metric (snd (update_agent_metrics agent t ok now)) ''success_rate'' = Some r1"
    "0 \<le> r1" "r1 \<le> 1" by blast
  from Cons.IH [OF r1] Cons.prems(4) show ?case by (simp add: c)
qed

theorem success_rate_stays_in_unit_interval_witness:
  "metric file_operations_agent ''success_rate'' = Some (9 / 10)
   \<and> (\<exists>r'. metric (update_agent_metrics_calls file_operations_agent
                [(2, True, noon_2024_03_01), (1 / 2, False, noon_2024_03_01)]) ''success_rate''
              = Some r' \<and> 0 \<le> r' \<and> r' \<le> 1)"
proof -
  have m: "metric file_operations_agent ''success_rate'' = Some (9 / 10)"
    by (simp add: metric_def file_operations_agent_def ParallelAgent_init_def)
  have c: "\<forall>c \<in> set [(2, True, noon_2024_03_01), (1 / 2, False, noon_2024_03_01)]. (0::real) \<le> fst c"
    by simp
  from success_rate_stays_in_unit_interval [OF m _ _ c] m show ?thesis by simp
qed

text \<open>
  C10. A stored \<^verbatim>\<open>response_time\<close> of 0 stays 0 under every call of
  \<^verbatim>\<open>update_agent_metrics\<close>, and so does a stored \<^verbatim>\<open>success_rate\<close> of 0, whatever the
  execution time and the success flag: each of the two updates is guarded by its old
  value being strictly positive.
\<close>

theorem zero_metric_is_absorbing:
  "(metric agent ''response_time'' = Some 0 \<longrightarrow>
      metric (snd (update_agent_metrics agent execution_time success now)) ''response_time'' = Some 0)
   \<and> (metric agent ''success_rate'' = Some 0 \<longrightarrow>
      metric (snd (update_agent_metrics agent execution_time success now)) ''success_rate'' = Some 0)"
proof (intro conjI impI)
  assume z: "metric agent ''response_time'' = Some 0"
  from response_time_after_call [OF z, of execution_time success now]
  show "metric (snd (update_agent_metrics agent execution_time success now)) ''response_time'' = Some 0"
    by auto
next
  assume z: "metric agent ''success_rate'' = Some 0"
  from success_rate_after_call [OF z, of execution_time success now]
  show "metric (snd (update_agent_metrics agent execution_time success now)) ''success_rate'' = Some 0"
    by auto
qed

theorem zero_metric_is_absorbing_witness:
  "metric (file_operations_agent\<lparr>performance_metrics :=
       [(''response_time'', 0), (''success_rate'', 0), (''efficiency'', 1)]\<rparr>) ''response_time'' = Some 0
   \<and> metric (file_operations_agent\<lparr>performance_metrics :=
       [(''response_time'', 0), (''success_rate'', 0), (''efficiency'', 1)]\<rparr>) ''success_rate'' = Some 0
   \<and> metric (snd (update_agent_metrics (file_operations_agent\<lparr>performance_metrics :=
       [(''response_time'', 0), (''success_rate'', 0), (''efficiency'', 1)]\<rparr>) 5 True noon_2024_03_01))
       ''response_time'' = Some 0
   \<and> metric (snd (update_agent_metrics (file_operations_agent\<lparr>performance_metrics :=
       [(''response_time'', 0), (''success_rate'', 0), (''efficiency'', 1)]\<rparr>) 5 True noon_2024_03_01))
       ''success_rate'' = Some 0"
  using zero_metric_is_absorbing [of "file_operations_agent\<lparr>performance_metrics :=
       [(''response_time'', 0), (''success_rate'', 0), (''efficiency'', 1)]\<rparr>" 5 True noon_2024_03_01]
  by (simp add: metric_def)

section \<open>Evaluation of the example states\<close>

lemma strftime_boot_time: "strftime_Ymd_HMS boot_time = ''20240228_110000''"
  by code_simp

lemma strftime_noon: "strftime_Ymd_HMS noon_2024_03_01 = ''20240301_120000''"
  by code_simp

lemma str_nat_digits:
  "str_nat 0 = ''0''" "str_nat 1 = ''1''" "str_nat (Suc 0) = ''1''" "str_nat 2 = ''2''"
  by code_simp+

lemma hours_between:
  "total_seconds noon_2024_03_01 boot_time = 49 * 3600"
  "total_seconds noon_2024_03_01 an_hour_before_noon = 3600"
  by (simp_all add: total_seconds_def delta_microseconds_def toordinal_def days_before_year_def
      days_before_month_def DAYS_BEFORE_MONTH_def is_leap_def noon_2024_03_01_def boot_time_def
      an_hour_before_noon_def)

lemmas submission_simps =
  schedule_task_def Let_def heappush_def siftdown.simps entry_lt_def ParallelTask_init_def
  or_default_def shell_task_def strftime_boot_time strftime_noon str_nat_digits

section \<open>Registration and the constructor\<close>

lemma register_agent_raises:
  assumes "ac_agent_id agent_config = Some aid"
  shows "register_agent s agent_config now = Inl TypeError"
  using assms by (simp add: register_agent_def ParallelAgent_call_def)

lemma constructor_raises: "ParallelTaskScheduler_init cpu_count psutil now = Inl TypeError"
  by (simp add: ParallelTaskScheduler_init_def register_predefined_agents_def predefined_agents_def
      register_agent_raises)

lemma fresh_scheduler_fields:
  "ParallelTaskScheduler_fields (Some 1) (Some mem_16g) boot_time = fresh_scheduler"
  by (simp add: ParallelTaskScheduler_fields_def ResourcePool_init_def get_memory_stats_def
      fresh_scheduler_def)

text \<open>
  C6. For a registration record without \<^verbatim>\<open>performance_metrics\<close>, \<^verbatim>\<open>register_agent\<close>
  inserts an Idle agent with the three default metrics, and an identifier that is already
  registered keeps its record. The code does not keep to the first part: the
  constructor call in \<^verbatim>\<open>register_agent\<close> leaves out the required \<^verbatim>\<open>task_history\<close>, so the
  method raises \<^verbatim>\<open>TypeError\<close> and inserts nothing, for \<open>bare_config\<close> as for the first of
  the predefined records, and the agent pool stays empty.
\<close>

theorem register_agent_raises_TypeError:
  "ac_performance_metrics bare_config = None
   \<and> register_agent fresh_scheduler bare_config noon_2024_03_01 = Inl TypeError
   \<and> register_agent fresh_scheduler (hd predefined_agents) boot_time = Inl TypeError
   \<and> agent_pool fresh_scheduler = []"
  by (simp add: register_agent_def ParallelAgent_call_def bare_config_def predefined_agents_def
      fresh_scheduler_def)

section \<open>Dependencies\<close>

text \<open>A first dependency that has a record makes the method raise, whatever its status.\<close>

lemma are_dependencies_met_record_raises:
  assumes "dependencies task = dep_id # rest" and "map_of (tasks s) dep_id = Some a"
  shows "are_dependencies_met s task = Inl AttributeError"
  using assms by (simp add: are_dependencies_met_def)

text \<open>
  C3, as the claim states it, gives true for a task whose only dependency has no record.
  On the empty task table the method returns false for such a task.
\<close>

theorem missing_dependency_is_unmet:
  "dependencies (store dependent_submitted ! 0) = [''task_20240228_110000_7'']
   \<and> map_of (tasks dependent_submitted) ''task_20240228_110000_7'' = None
   \<and> are_dependencies_met dependent_submitted (store dependent_submitted ! 0) = Inr False"
  by (simp add: are_dependencies_met_def dependent_submitted_def dependent_task_def
      fresh_scheduler_def submission_simps)

text \<open>
  C3, amended. For a task all of whose dependency identifiers have no record in the task
  table, \<^verbatim>\<open>are_dependencies_met\<close> returns true iff the task has no dependencies: a task
  without dependencies is ready, and a dependency without a record counts as unmet.
\<close>

theorem are_dependencies_met_without_records:
  assumes "\<forall>dep_id \<in> set (dependencies task). map_of (tasks s) dep_id = None"
  shows "are_dependencies_met s task = Inr (dependencies task = [])"
  using assms by (cases "dependencies task") (auto simp: are_dependencies_met_def)

theorem are_dependencies_met_without_records_witness:
  "are_dependencies_met fresh_scheduler (command_task\<lparr>dependencies := [''task_20240228_110000_7'']\<rparr>)
     = Inr False
   \<and> are_dependencies_met fresh_scheduler command_task = Inr True"
  using are_dependencies_met_without_records
          [of "command_task\<lparr>dependencies := [''task_20240228_110000_7'']\<rparr>" fresh_scheduler]
        are_dependencies_met_without_records [of command_task fresh_scheduler]
  by (simp add: fresh_scheduler_def command_task_def ParallelTask_init_def)

section \<open>Suitability\<close>

text \<open>
  C4. For an agent that is Idle, supports the task's type and has a load below its
  maximum, the suitability score is the weighted sum of the specification, and
  \<^verbatim>\<open>find_suitable_agent\<close> returns an eligible agent with the greatest score. The code does
  not keep to it: \<open>tool_executor_agent\<close> is Idle, supports the type of \<open>command_task\<close> and
  holds no task, and its score by the specification is 1.05; the load is computed as
  \<^verbatim>\<open>len(agent.current_task)\<close>, which raises \<^verbatim>\<open>TypeError\<close> for the \<^verbatim>\<open>None\<close> that an agent
  without a task holds, in the scoring and in the search.
\<close>

theorem idle_agent_without_task_raises:
  "agent_status tool_executor_agent = IDLE
   \<and> task_type command_task \<in> set (supported_task_types tool_executor_agent)
   \<and> current_task tool_executor_agent = None
   \<and> int (current_assigned tool_executor_agent) < max_concurrent_tasks tool_executor_agent
   \<and> claimed_score tool_executor_agent = 21 / 20
   \<and> calculate_agent_suitability_score tool_executor_agent command_task = Inl TypeError
   \<and> find_suitable_agent one_agent_scheduler command_task = Inl TypeError"
  by (simp add: tool_executor_agent_def command_task_def ParallelAgent_init_def
      ParallelTask_init_def current_assigned_def claimed_score_def recent_success_rate_def
      calculate_agent_suitability_score_def find_suitable_agent_def one_agent_scheduler_def
      fresh_scheduler_def)

section \<open>Retention\<close>

lemma remove_tasks_result:
  assumes "set ks \<subseteq> fst ` set (tasks s)" and "distinct ks"
  shows "\<exists>s'. remove_tasks ks s = (None, s')
           \<and> map_of (tasks s') = map_of (tasks s) |` (- set ks)
           \<and> map_of (task_status_stats s') = map_of (task_status_stats s) |` (- set ks)
           \<and> store s' = store s"
  using assms
proof (induction ks arbitrary: s)
  case Nil
  then show ?case by simp
next
  case (Cons k ks)
  let ?s1 = "s\<lparr>tasks := AList.delete k (tasks s),
               task_status_stats := AList.delete k (task_status_stats s)\<rparr>"
  from Cons.prems(1) have "k \<in> fst ` set (tasks s)" by simp
  then obtain a where a: "map_of (tasks s) k = Some a"
    by (metis map_of_eq_None_iff not_Some_eq)
  have "fst ` set (AList.delete k (tasks s)) = set (removeAll k (map fst (tasks s)))"
    by (metis delete_keys set_map)
  then have sub: "set ks \<subseteq> fst ` set (tasks ?s1)"
    using Cons.prems by auto
  from Cons.IH [OF sub] Cons.prems(2)
  obtain s' where s': "remove_tasks ks ?s1 = (None, s')"
    "map_of (tasks s') = map_of (tasks ?s1) |` (- set ks)"
    "map_of (task_status_stats s') = map_of (task_status_stats ?s1) |` (- set ks)"
    "store s' = store ?s1" by auto
  have "map_of (tasks s') = map_of (tasks s) |` (- set (k # ks))"
    unfolding s'(2) by (auto simp: delete_conv' restrict_map_def fun_eq_iff)
  moreover have "map_of (task_status_stats s') = map_of (task_status_stats s) |` (- set (k # ks))"
    unfolding s'(3) by (auto simp: delete_conv' restrict_map_def fun_eq_iff)
  ultimately show ?case using a s'(1,4) by simp
qed

text \<open>
  C8, as the claim states it, removes every task in a terminal status that completed more
  than 24 hours ago. Cancelled is a terminal status; the Cancelled task of
  \<open>cancelled_state\<close> completed 49 hours before noon of 1 March and is in the task table
  and in the status index after the prune step at that noon.
\<close>

theorem cancelled_task_is_kept:
  "status (store cancelled_state ! 0) = CANCELLED
   \<and> completed_at (store cancelled_state ! 0) = Some boot_time
   \<and> total_seconds noon_2024_03_01 boot_time = 49 * 3600
   \<and> map_of (tasks (snd (cleanup_completed_tasks cancelled_state noon_2024_03_01)))
        ''task_20240228_110000_0'' = Some 0
   \<and> map_of (task_status_stats (snd (cleanup_completed_tasks cancelled_state noon_2024_03_01)))
        ''task_20240228_110000_0'' = Some CANCELLED"
  by (simp add: cancelled_state_def fresh_scheduler_def finished_task_def ParallelTask_init_def
      cleanup_completed_tasks_def prunable_def hours_between)

text \<open>
  C8, amended. The prune step raises nothing on a task table with distinct keys, and after
  it every task whose status is Completed or Failed and whose \<^verbatim>\<open>completed_at\<close> is more
  than 24 hours before the current time is absent from the task table and from the status
  index, while every task whose \<^verbatim>\<open>completed_at\<close> is at most 24 hours before the current
  time is still in the task table.
\<close>

theorem cleanup_prunes_completed_and_failed:
  assumes "distinct (map fst (tasks s))"
  shows "\<exists>s'. cleanup_completed_tasks s now = (None, s') \<and> store s' = store s \<and>
     (\<forall>tid a c. map_of (tasks s) tid = Some a \<and> completed_at (store s ! a) = Some c
          \<and> total_seconds now c > 24 * 3600 \<and> status (store s ! a) \<in> {COMPLETED, FAILED}
        \<longrightarrow> map_of (tasks s') tid = None \<and> map_of (task_status_stats s') tid = None) \<and>
     (\<forall>tid a c. map_of (tasks s) tid = Some a \<and> completed_at (store s ! a) = Some c
          \<and> total_seconds now c \<le> 24 * 3600
        \<longrightarrow> map_of (tasks s') tid = Some a)"
proof -
  let ?P = "\<lambda>(tid, a). prunable now (store s ! a)"
  let ?ks = "map fst (filter ?P (tasks s))"
  have d: "distinct ?ks" using assms by (rule distinct_map_filter)
  have sub: "set ?ks \<subseteq> fst ` set (tasks s)" by auto
  from remove_tasks_result [OF sub d]
  obtain s' where s': "remove_tasks ?ks s = (None, s')"
    "map_of (tasks s') = map_of (tasks s) |` (- set ?ks)"
    "map_of (task_status_stats s') = map_of (task_status_stats s) |` (- set ?ks)"
    "store s' = store s" by blast
  have mem: "tid \<in> set ?ks \<longleftrightarrow> prunable now (store s ! a)" if "map_of (tasks s) tid = Some a" for tid a
  proof
    assume "tid \<in> set ?ks"
    then obtain b where b: "(tid, b) \<in> set (tasks s)" "prunable now (store s ! b)" by auto
    from b(1) assms have "map_of (tasks s) tid = Some b" by simp
    with that b(2) show "prunable now (store s ! a)" by simp
  next
    assume p: "prunable now (store s ! a)"
    from that have "(tid, a) \<in> set (tasks s)" by (rule map_of_SomeD)
    with p show "tid \<in> set ?ks" by force
  qed
  have cl: "cleanup_completed_tasks s now = (None, s')"
    using s'(1) by (simp add: cleanup_completed_tasks_def Let_def)
  show ?thesis
  proof (intro exI conjI allI impI)
    show "cleanup_completed_tasks s now = (None, s')" by (rule cl)
    show "store s' = store s" by (rule s'(4))
  next
    fix tid a c
    assume h: "map_of (tasks s) tid = Some a \<and> completed_at (store s ! a) = Some c
          \<and> total_seconds now c > 24 * 3600 \<and> status (store s ! a) \<in> {COMPLETED, FAILED}"
    then have "prunable now (store s ! a)" by (auto simp: prunable_def)
    with mem h have "tid \<in> set ?ks" by blast
    then show "map_of (tasks s') tid = None" "map_of (task_status_stats s') tid = None"
      unfolding s'(2,3) by (simp_all add: restrict_map_def)
  next
    fix tid a c
    assume h: "map_of (tasks s) tid = Some a \<and> completed_at (store s ! a) = Some c
          \<and> total_seconds now c \<le> 24 * 3600"
    then have "\<not> prunable now (store s ! a)" by (auto simp: prunable_def)
    with mem h have "tid \<notin> set ?ks" by blast
    then show "map_of (tasks s') tid = Some a"
      unfolding s'(2) using h by (simp add: restrict_map_def)
  qed
qed


theorem cleanup_prunes_completed_and_failed_witness:
  "distinct (map fst (tasks retention_state))
   \<and> map_of (tasks (snd (cleanup_completed_tasks retention_state noon_2024_03_01)))
        ''task_20240228_110000_0'' = None
   \<and> map_of (task_status_stats (snd (cleanup_completed_tasks retention_state noon_2024_03_01)))
        ''task_20240228_110000_0'' = None
   \<and> map_of (tasks (snd (cleanup_completed_tasks retention_state noon_2024_03_01)))
        ''task_20240301_110000_1'' = Some 1"
proof -
  have d: "distinct (map fst (tasks retention_state))"
    by (simp add: retention_state_def)
  have old: "map_of (tasks retention_state) ''task_20240228_110000_0'' = Some 0
      \<and> completed_at (store retention_state ! 0) = Some boot_time
      \<and> total_seconds noon_2024_03_01 boot_time > 24 * 3600
      \<and> status (store retention_state ! 0) \<in> {COMPLETED, FAILED}"
    by (simp add: retention_state_def finished_task_def ParallelTask_init_def hours_between)
  have recent: "map_of (tasks retention_state) ''task_20240301_110000_1'' = Some 1
      \<and> completed_at (store retention_state ! 1) = Some an_hour_before_noon
      \<and> total_seconds noon_2024_03_01 an_hour_before_noon \<le> 24 * 3600"
    by (simp add: retention_state_def finished_task_def ParallelTask_init_def hours_between)
  from cleanup_prunes_completed_and_failed [OF d, of noon_2024_03_01]
  obtain s' where s': "cleanup_completed_tasks retention_state noon_2024_03_01 = (None, s')"
    and gone: "\<forall>tid a c. map_of (tasks retention_state) tid = Some a
          \<and> completed_at (store retention_state ! a) = Some c
          \<and> total_seconds noon_2024_03_01 c > 24 * 3600
          \<and> status (store retention_state ! a) \<in> {COMPLETED, FAILED}
        \<longrightarrow> map_of (tasks s') tid = None \<and> map_of (task_status_stats s') tid = None"
    and kept: "\<forall>tid a c. map_of (tasks retention_state) tid = Some a
          \<and> completed_at (store retention_state ! a) = Some c
          \<and> total_seconds noon_2024_03_01 c \<le> 24 * 3600
        \<longrightarrow> map_of (tasks s') tid = Some a"
    by blast
  from gone old have "map_of (tasks s') ''task_20240228_110000_0'' = None
      \<and> map_of (task_status_stats s') ''task_20240228_110000_0'' = None" by blast
  moreover from kept recent have "map_of (tasks s') ''task_20240301_110000_1'' = Some 1" by blast
  ultimately show ?thesis using d s' by simp
qed

section \<open>The scheduling tick\<close>

lemmas tick_simps =
  process_ready_tasks_def drain_queue.simps heappop_def siftup_def siftup_loop.simps
  can_allocate_task_def dict_get_def mem_16g_def allocate_resources_def release_resources_def
  execute_task_def execute_task_enter_def execute_task_except_def update_task_def
  update_agent_status_after_task_def exec_at_def hist_at_def fresh_scheduler_def

text \<open>
  C1. A task with a dependency that is not Completed never becomes Running. The code does
  not keep to it: the task of \<open>dependent_submitted\<close> depends on an identifier without a
  record, \<^verbatim>\<open>are_dependencies_met\<close> is false for it, and the tick admits it, makes it
  Running in \<^verbatim>\<open>allocate_resources\<close> and runs \<^verbatim>\<open>execute_task\<close> on it, which sets Running
  again and the start time.
\<close>

theorem unmet_dependency_becomes_running:
  "are_dependencies_met dependent_submitted (store dependent_submitted ! 0) = Inr False
   \<and> status (store dependent_submitted ! 0) = PENDING
   \<and> fst (drain_queue dependent_submitted []) = Inr [0]
   \<and> status (snd (snd (allocate_resources (resource_pool dependent_submitted)
                          (store dependent_submitted ! 0)))) = RUNNING
   \<and> status (store (execute_task_enter dependent_submitted 0 boot_time) ! 0) = RUNNING
   \<and> started_at (store (snd (process_ready_tasks dependent_submitted
                                 (exec_at boot_time) (hist_at boot_time))) ! 0) = Some boot_time"
  by (simp add: are_dependencies_met_def dependent_submitted_def dependent_task_def
      submission_simps tick_simps)

text \<open>
  C2. The available workers stay within 0 and \<^verbatim>\<open>max_workers\<close>, and a release is made only
  for a task whose allocation succeeded. The code does not keep to it: with two workers
  and three admitted tasks the tick allocates two, fails to allocate the third, which
  stays Pending and unstarted, and releases all three; three workers are then available
  of at most two.
\<close>

theorem release_without_allocation_exceeds_max_workers:
  "max_workers (resource_pool three_submitted) = 2
   \<and> available_workers (resource_pool three_submitted) = 2
   \<and> (\<exists>s'. process_ready_tasks three_submitted (exec_at boot_time) (hist_at boot_time) = (None, s')
          \<and> status (store s' ! 2) = FAILED \<and> status (store s' ! 1) = FAILED
          \<and> status (store s' ! 0) = PENDING \<and> started_at (store s' ! 0) = None
          \<and> max_workers (resource_pool s') = 2
          \<and> available_workers (resource_pool s') = 3)"
  by (simp add: three_submitted_def submission_simps tick_simps)

section \<open>Task identifiers\<close>

text \<open>
  C9. Two calls of \<^verbatim>\<open>schedule_task\<close> return different identifiers, also when tasks were
  pruned between them. The code does not keep to it: the identifier ends in the size of the
  task table, which a prune step makes smaller. In scenario 3 the second and the third
  submission fall into the same second with the prune step between them, and both return
  \<^verbatim>\<open>task_20240301_120000_1\<close>; the third task takes the second's place in the task table.
\<close>

theorem task_id_repeats_after_prune:
  "(\<exists>s2 s3. second_submitted = (Inr ''task_20240301_120000_1'', s2)
       \<and> map_of (tasks s2) ''task_20240301_120000_1'' = Some 1
       \<and> cleanup_completed_tasks s2 noon_2024_03_01 = (None, pruned)
       \<and> third_submitted = (Inr ''task_20240301_120000_1'', s3)
       \<and> map_of (tasks s3) ''task_20240301_120000_1'' = Some 2)"
  by (simp add: second_submitted_def third_submitted_def pruned_def first_processed_def
      submission_simps tick_simps cleanup_completed_tasks_def prunable_def hours_between)

end
